theory Spec2Isabelle
  imports Complex_Main
begin

section \<open>Python values\<close>

text \<open>
  The scraper of \<^verbatim>\<open>src/web_scapper.py\<close> stores in a company snapshot either a Python
  \<^verbatim>\<open>float\<close> or a \<^verbatim>\<open>str\<close> (\<^verbatim>\<open>Dict[str, Union[str, float]]\<close>). A float is modelled by
  \<open>pynum\<close>: a finite value is an exact real number (the rounding of IEEE doubles and
  overflow to infinity are not modelled), and the three non-finite floats are values of
  their own, because comparisons and \<^verbatim>\<open>min\<close>/\<^verbatim>\<open>max\<close> treat them specially. Strings are
  byte strings (ASCII).
\<close>

datatype pynum = Fin real | PInf | NInf | NaN

datatype pyvalue = Number pynum | Str string

datatype error =
    TypeError
  | ValueError string
  | StopIteration
  | HTTPError nat
  | RequestException string

subsection \<open>Float arithmetic and comparison\<close>

definition signed_inf :: "bool \<Rightarrow> pynum" where
  "signed_inf positive = (if positive then PInf else NInf)"

fun py_neg :: "pynum \<Rightarrow> pynum" where
  "py_neg (Fin x) = Fin (- x)"
| "py_neg PInf = NInf"
| "py_neg NInf = PInf"
| "py_neg NaN = NaN"

fun py_abs :: "pynum \<Rightarrow> pynum" where
  "py_abs (Fin x) = Fin \<bar>x\<bar>"
| "py_abs PInf = PInf"
| "py_abs NInf = PInf"
| "py_abs NaN = NaN"

fun py_add :: "pynum \<Rightarrow> pynum \<Rightarrow> pynum" where
  "py_add (Fin x) (Fin y) = Fin (x + y)"
| "py_add NaN _ = NaN"
| "py_add _ NaN = NaN"
| "py_add PInf NInf = NaN"
| "py_add NInf PInf = NaN"
| "py_add PInf _ = PInf"
| "py_add _ PInf = PInf"
| "py_add NInf _ = NInf"
| "py_add _ NInf = NInf"

definition py_sub :: "pynum \<Rightarrow> pynum \<Rightarrow> pynum" where
  "py_sub a b = py_add a (py_neg b)"

fun py_mul :: "pynum \<Rightarrow> pynum \<Rightarrow> pynum" where
  "py_mul (Fin x) (Fin y) = Fin (x * y)"
| "py_mul NaN _ = NaN"
| "py_mul _ NaN = NaN"
| "py_mul (Fin x) PInf = (if x = 0 then NaN else signed_inf (0 < x))"
| "py_mul (Fin x) NInf = (if x = 0 then NaN else signed_inf (x < 0))"
| "py_mul PInf (Fin y) = (if y = 0 then NaN else signed_inf (0 < y))"
| "py_mul NInf (Fin y) = (if y = 0 then NaN else signed_inf (y < 0))"
| "py_mul PInf PInf = PInf"
| "py_mul PInf NInf = NInf"
| "py_mul NInf PInf = NInf"
| "py_mul NInf NInf = PInf"

text \<open>\<^verbatim>\<open>a < b\<close> and \<^verbatim>\<open>a <= b\<close> on floats: every comparison with NaN is false.\<close>

fun py_lt :: "pynum \<Rightarrow> pynum \<Rightarrow> bool" where
  "py_lt (Fin x) (Fin y) = (x < y)"
| "py_lt NaN _ = False"
| "py_lt _ NaN = False"
| "py_lt _ NInf = False"
| "py_lt PInf _ = False"
| "py_lt NInf _ = True"
| "py_lt _ PInf = True"

fun py_le :: "pynum \<Rightarrow> pynum \<Rightarrow> bool" where
  "py_le (Fin x) (Fin y) = (x \<le> y)"
| "py_le NaN _ = False"
| "py_le _ NaN = False"
| "py_le NInf _ = True"
| "py_le _ PInf = True"
| "py_le _ NInf = False"
| "py_le PInf _ = False"

definition py_gt :: "pynum \<Rightarrow> pynum \<Rightarrow> bool" where
  "py_gt a b = py_lt b a"

definition py_ge :: "pynum \<Rightarrow> pynum \<Rightarrow> bool" where
  "py_ge a b = py_le b a"

text \<open>
  The builtins \<^verbatim>\<open>min(a, b)\<close> and \<^verbatim>\<open>max(a, b)\<close> keep their first argument unless the
  second is strictly smaller (strictly greater).
\<close>

definition py_min :: "pynum \<Rightarrow> pynum \<Rightarrow> pynum" where
  "py_min a b = (if py_lt b a then b else a)"

definition py_max :: "pynum \<Rightarrow> pynum \<Rightarrow> pynum" where
  "py_max a b = (if py_gt b a then b else a)"

text \<open>
  \<^verbatim>\<open>np.mean\<close> of a list of floats: the sum divided by the number of elements, in numpy's
  float division (a zero divisor gives NaN or an infinity, never an exception).
\<close>

fun np_divide :: "pynum \<Rightarrow> pynum \<Rightarrow> pynum" where
  "np_divide (Fin x) (Fin y) =
     (if y = 0 then (if x = 0 then NaN else signed_inf (0 < x)) else Fin (x / y))"
| "np_divide NaN _ = NaN"
| "np_divide _ NaN = NaN"
| "np_divide (Fin x) PInf = Fin 0"
| "np_divide (Fin x) NInf = Fin 0"
| "np_divide PInf (Fin y) = signed_inf (0 \<le> y)"
| "np_divide NInf (Fin y) = signed_inf (y < 0)"
| "np_divide PInf PInf = NaN"
| "np_divide PInf NInf = NaN"
| "np_divide NInf PInf = NaN"
| "np_divide NInf NInf = NaN"

definition np_sum :: "pynum list \<Rightarrow> pynum" where
  "np_sum xs = foldl py_add (Fin 0) xs"

definition np_mean :: "pynum list \<Rightarrow> pynum" where
  "np_mean xs = np_divide (np_sum xs) (Fin (real (length xs)))"

section \<open>Metric scorer\<close>

subsection \<open>Valuation\<close>

text \<open>
  The three local variables \<^verbatim>\<open>pe_score\<close>, \<^verbatim>\<open>peg_score\<close> and \<^verbatim>\<open>pb_score\<close> of
  \<^verbatim>\<open>_calculate_valuation_score\<close>, as functions of the ratio they are computed from.
\<close>

definition pe_score :: "pynum \<Rightarrow> pynum" where
  "pe_score pe = py_max (Fin 0) (py_min (Fin 100) (py_mul (py_sub (Fin 30) pe) (Fin 3.33)))"

definition peg_score :: "pynum \<Rightarrow> pynum" where
  "peg_score peg =
     py_max (Fin 0) (py_min (Fin 100) (py_mul (py_sub (Fin 2) (py_abs (py_sub (Fin 1) peg))) (Fin 50)))"

definition pb_score :: "pynum \<Rightarrow> pynum" where
  "pb_score pb = py_max (Fin 0) (py_min (Fin 100) (py_mul (py_sub (Fin 5) pb) (Fin 20)))"

text \<open>The list \<^verbatim>\<open>scores\<close> when the function reaches its \<^verbatim>\<open>return\<close>.\<close>

definition valuation_scores :: "pynum \<Rightarrow> pynum \<Rightarrow> pynum \<Rightarrow> pynum list" where
  "valuation_scores pe peg pb =
     (if py_gt pe (Fin 0) then [pe_score pe] else [])
     @ (if py_gt peg (Fin 0) then [peg_score peg] else [])
     @ (if py_gt pb (Fin 0) then [pb_score pb] else [])"

text \<open>
  The arguments come out of the snapshot untyped. The first statement that touches a
  \<^verbatim>\<open>str\<close> argument is a comparison with a number (\<^verbatim>\<open>pe > 0\<close>), which raises
  \<^verbatim>\<open>TypeError\<close>; so the function raises as soon as one argument is a string.
\<close>

fun calculate_valuation_score :: "pyvalue \<Rightarrow> pyvalue \<Rightarrow> pyvalue \<Rightarrow> error + pynum" where
  "calculate_valuation_score (Number pe) (Number peg) (Number pb) =
     (let scores = valuation_scores pe peg pb
      in Inr (if scores \<noteq> [] then np_mean scores else Fin 0))"
| "calculate_valuation_score _ _ _ = Inl TypeError"

subsection \<open>Growth\<close>

definition earnings_score :: "pynum \<Rightarrow> pynum" where
  "earnings_score earnings_growth = py_max (Fin 0) (py_min (Fin 100) (py_mul earnings_growth (Fin 5)))"

definition sales_score :: "pynum \<Rightarrow> pynum" where
  "sales_score sales_growth = py_max (Fin 0) (py_min (Fin 100) (py_mul sales_growth (Fin 5)))"

text \<open>
  Both guards are \<^verbatim>\<open>is not None\<close>. A snapshot holds floats and strings and the default of
  a missing field is \<^verbatim>\<open>0\<close>, so the guards always hold and both components are appended.
  For a string \<^verbatim>\<open>s\<close>, \<^verbatim>\<open>s * 5\<close> is a string and \<^verbatim>\<open>min(100, s * 5)\<close> raises \<^verbatim>\<open>TypeError\<close>.
\<close>

definition growth_scores :: "pynum \<Rightarrow> pynum \<Rightarrow> pynum list" where
  "growth_scores earnings_growth sales_growth =
     [earnings_score earnings_growth] @ [sales_score sales_growth]"

fun calculate_growth_score :: "pyvalue \<Rightarrow> pyvalue \<Rightarrow> error + pynum" where
  "calculate_growth_score (Number earnings_growth) (Number sales_growth) =
     (let scores = growth_scores earnings_growth sales_growth
      in Inr (if scores \<noteq> [] then np_mean scores else Fin 0))"
| "calculate_growth_score _ _ = Inl TypeError"

subsection \<open>Financial health\<close>

definition current_ratio_score :: "pynum \<Rightarrow> pynum" where
  "current_ratio_score current_ratio =
     py_max (Fin 0) (py_min (Fin 100) (py_mul current_ratio (Fin 50)))"

definition debt_equity_score :: "pynum \<Rightarrow> pynum" where
  "debt_equity_score debt_equity =
     py_max (Fin 0) (py_min (Fin 100) (py_mul (py_sub (Fin 2) debt_equity) (Fin 50)))"

definition financial_health_scores :: "pynum \<Rightarrow> pynum \<Rightarrow> pynum list" where
  "financial_health_scores current_ratio debt_equity =
     (if py_gt current_ratio (Fin 0) then [current_ratio_score current_ratio] else [])
     @ (if py_ge debt_equity (Fin 0) then [debt_equity_score debt_equity] else [])"

fun calculate_financial_health_score :: "pyvalue \<Rightarrow> pyvalue \<Rightarrow> error + pynum" where
  "calculate_financial_health_score (Number current_ratio) (Number debt_equity) =
     (let scores = financial_health_scores current_ratio debt_equity
      in Inr (if scores \<noteq> [] then np_mean scores else Fin 0))"
| "calculate_financial_health_score _ _ = Inl TypeError"

subsection \<open>Rating set\<close>

type_synonym snapshot = "string \<rightharpoonup> pyvalue"

record ratings =
  valuation_score :: pynum
  growth_score :: pynum
  financial_health_score :: pynum
  overall_score :: pynum

text \<open>\<^verbatim>\<open>company_data.get(key, 0)\<close>.\<close>

definition dict_get :: "snapshot \<Rightarrow> string \<Rightarrow> pyvalue \<Rightarrow> pyvalue" where
  "dict_get company_data k d = (case company_data k of None \<Rightarrow> d | Some v \<Rightarrow> v)"

text \<open>
  The \<^verbatim>\<open>try\<close> block logs the exception and raises it again, so an exception of a scorer
  is the result of the whole function.
\<close>

definition get_stock_rating_data :: "snapshot \<Rightarrow> error + ratings" where
  "get_stock_rating_data company_data =
     (let pe_ratio = dict_get company_data ''P/E'' (Number (Fin 0));
          peg_ratio = dict_get company_data ''PEG'' (Number (Fin 0));
          pb_ratio = dict_get company_data ''P/B'' (Number (Fin 0))
      in case calculate_valuation_score pe_ratio peg_ratio pb_ratio of
           Inl e \<Rightarrow> Inl e
         | Inr valuation \<Rightarrow>
     (let earnings_growth = dict_get company_data ''EPS growth next 5 years'' (Number (Fin 0));
          sales_growth = dict_get company_data ''Sales growth past 5 years'' (Number (Fin 0))
      in case calculate_growth_score earnings_growth sales_growth of
           Inl e \<Rightarrow> Inl e
         | Inr growth \<Rightarrow>
     (let current_ratio = dict_get company_data ''Current Ratio'' (Number (Fin 0));
          debt_equity = dict_get company_data ''Debt/Equity'' (Number (Fin 0))
      in case calculate_financial_health_score current_ratio debt_equity of
           Inl e \<Rightarrow> Inl e
         | Inr health \<Rightarrow>
             Inr \<lparr>valuation_score = valuation,
                  growth_score = growth,
                  financial_health_score = health,
                  overall_score = np_mean [valuation, growth, health]\<rparr>)))"

section \<open>Value normalization\<close>

subsection \<open>String operations\<close>

text \<open>
  The characters that \<^verbatim>\<open>str.strip()\<close> takes for white space, among ASCII: codes 9 to 13
  and 28 to 32. \<^verbatim>\<open>float()\<close> skips fewer around an ASCII string: codes 9 to 13 and 32 only.
\<close>

definition is_space :: "char \<Rightarrow> bool" where
  "is_space c = (let n = (of_char c :: nat) in (9 \<le> n \<and> n \<le> 13) \<or> (28 \<le> n \<and> n \<le> 32))"

definition is_float_space :: "char \<Rightarrow> bool" where
  "is_float_space c = (let n = (of_char c :: nat) in (9 \<le> n \<and> n \<le> 13) \<or> n = 32)"

definition strip_by :: "(char \<Rightarrow> bool) \<Rightarrow> string \<Rightarrow> string" where
  "strip_by sp s = rev (dropWhile sp (rev (dropWhile sp s)))"

definition str_strip :: "string \<Rightarrow> string" where
  "str_strip s = strip_by is_space s"

text \<open>\<^verbatim>\<open>s.replace(c, '')\<close> for a one-character \<^verbatim>\<open>c\<close>.\<close>

definition str_remove :: "char \<Rightarrow> string \<Rightarrow> string" where
  "str_remove c s = filter (\<lambda>x. x \<noteq> c) s"

definition is_digit :: "char \<Rightarrow> bool" where
  "is_digit c = (let n = (of_char c :: nat) in 48 \<le> n \<and> n \<le> 57)"

definition digit_value :: "char \<Rightarrow> nat" where
  "digit_value c = of_char c - 48"

definition to_lower :: "char \<Rightarrow> char" where
  "to_lower c = (let n = (of_char c :: nat) in if 65 \<le> n \<and> n \<le> 90 then char_of (n + 32) else c)"

subsection \<open>The builtin \<^verbatim>\<open>float(str)\<close>\<close>

text \<open>
  \<^verbatim>\<open>float\<close> accepts, between optional white space (codes 9 to 13 and 32; the codes 28
  to 31, which \<^verbatim>\<open>strip\<close> removes, it rejects), an optional sign followed by
  \<^verbatim>\<open>inf\<close>, \<^verbatim>\<open>infinity\<close> or \<^verbatim>\<open>nan\<close> in any case, or by a decimal number: digits with an
  optional point (at least one digit before or after it) and an optional exponent.
  Single underscores may stand between digits. Anything else raises \<^verbatim>\<open>ValueError\<close>,
  here \<open>None\<close>. The value of a decimal number is exact in the model.
\<close>

fun underscores_ok :: "bool \<Rightarrow> string \<Rightarrow> bool" where
  "underscores_ok after_digit [] = True"
| "underscores_ok after_digit (c # cs) =
     (if c = CHR ''_''
      then after_digit \<and> (case cs of [] \<Rightarrow> False | d # _ \<Rightarrow> is_digit d) \<and> underscores_ok False cs
      else underscores_ok (is_digit c) cs)"

definition split_sign :: "string \<Rightarrow> bool \<times> string" where
  "split_sign s =
     (case s of
        [] \<Rightarrow> (False, s)
      | c # r \<Rightarrow> if c = CHR ''-'' then (True, r) else if c = CHR ''+'' then (False, r) else (False, s))"

definition digits_value :: "string \<Rightarrow> nat" where
  "digits_value ds = foldl (\<lambda>a c. 10 * a + digit_value c) 0 ds"

definition scale10 :: "nat \<Rightarrow> int \<Rightarrow> real" where
  "scale10 m e = (if 0 \<le> e then real m * 10 ^ nat e else real m / 10 ^ nat (- e))"

definition parse_exponent :: "string \<Rightarrow> int option" where
  "parse_exponent s =
     (case s of
        [] \<Rightarrow> Some 0
      | c # t \<Rightarrow>
          if c = CHR ''e'' \<or> c = CHR ''E''
          then (let (negative, ds) = split_sign t
                in if ds \<noteq> [] \<and> list_all is_digit ds
                   then Some (if negative then - int (digits_value ds) else int (digits_value ds))
                   else None)
          else None)"

definition parse_decimal :: "string \<Rightarrow> real option" where
  "parse_decimal s =
     (let int_part = takeWhile is_digit s;
          r1 = dropWhile is_digit s;
          (frac_part, r2) =
            (case r1 of
               [] \<Rightarrow> ([], r1)
             | c # t \<Rightarrow> if c = CHR ''.'' then (takeWhile is_digit t, dropWhile is_digit t) else ([], r1))
      in if int_part = [] \<and> frac_part = [] then None
         else (case parse_exponent r2 of
                 None \<Rightarrow> None
               | Some e \<Rightarrow> Some (scale10 (digits_value (int_part @ frac_part)) (e - int (length frac_part)))))"

definition parse_unsigned :: "string \<Rightarrow> pynum option" where
  "parse_unsigned s =
     (let l = map to_lower s
      in if l = ''inf'' \<or> l = ''infinity'' then Some PInf
         else if l = ''nan'' then Some NaN
         else map_option Fin (parse_decimal s))"

definition py_float :: "string \<Rightarrow> pynum option" where
  "py_float s =
     (if underscores_ok False s
      then (let (negative, r) = split_sign (strip_by is_float_space (str_remove (CHR ''_'') s))
            in map_option (\<lambda>x. if negative then py_neg x else x) (parse_unsigned r))
      else None)"

subsection \<open>\<^verbatim>\<open>_convert_value\<close>\<close>

text \<open>
  The \<^verbatim>\<open>try\<close> block rebinds \<^verbatim>\<open>value\<close> to the string without commas and percent signs
  before it calls \<^verbatim>\<open>float\<close>, so the \<^verbatim>\<open>except\<close> branch returns that string.
\<close>

definition convert_value :: "string \<Rightarrow> pyvalue" where
  "convert_value v =
     (let v' = str_remove (CHR ''%'') (str_remove (CHR '','') v)
      in case py_float v' of Some x \<Rightarrow> Number x | None \<Rightarrow> Str v')"

section \<open>Documents\<close>

text \<open>
  A parsed document as BeautifulSoup hands it to the scraper: an element has a name, its
  \<^verbatim>\<open>class\<close> attribute as the list of its class names, its \<^verbatim>\<open>id\<close> attribute if it has one,
  and its children; a leaf is a string of the page. The parsing of the markup itself is
  the library's and is not modelled.
\<close>

datatype node = Tag string "string list" "string option" "node list" | NavigableString string

fun descendants :: "node \<Rightarrow> node list" where
  "descendants (Tag nm classes ident kids) = concat (map (\<lambda>k. k # descendants k) kids)"
| "descendants (NavigableString s) = []"

text \<open>\<^verbatim>\<open>node.text\<close>: the strings below the node, in document order.\<close>

fun get_text :: "node \<Rightarrow> string" where
  "get_text (Tag nm classes ident kids) = concat (map get_text kids)"
| "get_text (NavigableString s) = s"

fun tag_named :: "string \<Rightarrow> node \<Rightarrow> bool" where
  "tag_named n (Tag nm classes ident kids) = (nm = n)"
| "tag_named n (NavigableString s) = False"

fun has_class :: "string \<Rightarrow> node \<Rightarrow> bool" where
  "has_class c (Tag nm classes ident kids) = (c \<in> set classes)"
| "has_class c (NavigableString s) = False"

fun has_id :: "string \<Rightarrow> node \<Rightarrow> bool" where
  "has_id i (Tag nm classes ident kids) = (ident = Some i)"
| "has_id i (NavigableString s) = False"

definition any_attrs :: "node \<Rightarrow> bool" where
  "any_attrs n = True"

text \<open>\<^verbatim>\<open>doc.find_all(name, ...)\<close> and \<^verbatim>\<open>doc.find(name, ...)\<close> (here \<open>find_tag\<close>): the search is
  recursive, the matches come in document order, and \<^verbatim>\<open>find\<close> returns the first one.\<close>

definition find_all :: "node \<Rightarrow> string \<Rightarrow> (node \<Rightarrow> bool) \<Rightarrow> node list" where
  "find_all doc n attrs = filter (\<lambda>k. tag_named n k \<and> attrs k) (descendants doc)"

definition find_tag :: "node \<Rightarrow> string \<Rightarrow> (node \<Rightarrow> bool) \<Rightarrow> node option" where
  "find_tag doc n attrs = (case find_all doc n attrs of [] \<Rightarrow> None | k # _ \<Rightarrow> Some k)"

text \<open>\<^verbatim>\<open>a or b\<close> on results of \<^verbatim>\<open>find\<close>: a tag is always true, \<^verbatim>\<open>None\<close> is false.\<close>

definition py_or :: "node option \<Rightarrow> node option \<Rightarrow> node option" where
  "py_or a b = (case a of Some k \<Rightarrow> Some k | None \<Rightarrow> b)"

definition cell_text :: "node \<Rightarrow> string" where
  "cell_text k = str_strip (get_text k)"

section \<open>Request throttler\<close>

subsection \<open>\<^verbatim>\<open>itertools.cycle\<close>\<close>

text \<open>
  The iterator keeps what is left of its source, the items it has saved from it, and an
  index into the saved items. \<^verbatim>\<open>next\<close> takes from the source while it lasts, saving each
  item; afterwards it walks the saved items and starts over at their end. With nothing
  saved it raises \<^verbatim>\<open>StopIteration\<close>, here \<open>None\<close>.
\<close>

record 'a cycle =
  iter_rest :: "'a list"
  saved :: "'a list"
  idx :: nat

definition cycle_new :: "'a list \<Rightarrow> 'a cycle" where
  "cycle_new xs = \<lparr>iter_rest = xs, saved = [], idx = 0\<rparr>"

definition cycle_next :: "'a cycle \<Rightarrow> ('a \<times> 'a cycle) option" where
  "cycle_next c =
     (case iter_rest c of
        x # r \<Rightarrow> Some (x, c\<lparr>iter_rest := r, saved := saved c @ [x]\<rparr>)
      | [] \<Rightarrow>
          if saved c = [] then None
          else Some (saved c ! idx c,
                     c\<lparr>idx := (if idx c + 1 \<ge> length (saved c) then 0 else idx c + 1)\<rparr>))"

subsection \<open>The scraper and one request\<close>

record scraper =
  base_url :: string
  user_agents :: "string list"
  user_agent_cycle :: "string cycle"
  proxies :: "string cycle option"
  last_request_time :: real
  min_request_interval :: real

definition default_user_agents :: "string list" where
  "default_user_agents =
     [''Mozilla/5.0 (Windows NT 10.0; Win64; x64) AppleWebKit/537.36 (KHTML, like Gecko) Chrome/91.0.4472.124 Safari/537.36'',
      ''Mozilla/5.0 (Macintosh; Intel Mac OS X 10_15_7) AppleWebKit/537.36 (KHTML, like Gecko) Chrome/91.0.4472.124 Safari/537.36'',
      ''Mozilla/5.0 (Windows NT 10.0; Win64; x64; rv:89.0) Gecko/20100101 Firefox/89.0'',
      ''Mozilla/5.0 (Macintosh; Intel Mac OS X 10_15_7) AppleWebKit/605.1.15 (KHTML, like Gecko) Version/14.1.1 Safari/605.1.15'',
      ''Mozilla/5.0 (X11; Linux x86_64) AppleWebKit/537.36 (KHTML, like Gecko) Chrome/91.0.4472.124 Safari/537.36'']"

text \<open>\<^verbatim>\<open>FinvizScraper.__init__(proxies)\<close>; \<^verbatim>\<open>if proxies\<close> is false for \<^verbatim>\<open>None\<close> and for the empty list.\<close>

definition init :: "string list option \<Rightarrow> scraper" where
  "init proxy_list =
     \<lparr>base_url = ''https://finviz.com'',
      user_agents = default_user_agents,
      user_agent_cycle = cycle_new default_user_agents,
      proxies = (case proxy_list of
                   None \<Rightarrow> None
                 | Some ps \<Rightarrow> if ps \<noteq> [] then Some (cycle_new ps) else None),
      last_request_time = 0,
      min_request_interval = 2\<rparr>"

text \<open>
  What one call of \<^verbatim>\<open>_make_request\<close> reads from outside the program: the clock when the
  call starts, the number \<^verbatim>\<open>random.random()\<close> hands to \<^verbatim>\<open>random.uniform\<close> (the library
  draws it from 0 to 1), what \<^verbatim>\<open>requests.get\<close> does (it raises, or it returns a response),
  and the clock when \<^verbatim>\<open>requests.get\<close> is over, which the code reads only if it returned. A
  response is its status code and its body as BeautifulSoup parses it.
\<close>

record response =
  status_code :: nat
  soup :: node

record world =
  time_before :: real
  random_unit :: real
  reply :: "error + response"
  time_after :: real

text \<open>\<^verbatim>\<open>random.uniform(a, b)\<close> is \<^verbatim>\<open>a + (b - a) * random()\<close>; the jitter is \<^verbatim>\<open>random.uniform(0.5, 1.5)\<close>.\<close>

definition random_uniform :: "real \<Rightarrow> real \<Rightarrow> real \<Rightarrow> real" where
  "random_uniform a b u = a + (b - a) * u"

definition jitter :: "world \<Rightarrow> real" where
  "jitter w = random_uniform 0.5 1.5 (random_unit w)"

text \<open>What a call does to the outside: it sleeps, and it sends a GET with a user agent and a proxy.\<close>

datatype effect = Sleep real | Get string string "string option"

definition make_request :: "scraper \<Rightarrow> world \<Rightarrow> string \<Rightarrow> (error + response) \<times> effect list \<times> scraper" where
  "make_request s w url =
     (let time_since_last_request = time_before w - last_request_time s;
          waited = (if time_since_last_request < min_request_interval s
                    then [Sleep (min_request_interval s - time_since_last_request)] else [])
      in case cycle_next (user_agent_cycle s) of
           None \<Rightarrow> (Inl StopIteration, waited, s)
         | Some (agent, agents) \<Rightarrow>
             (let s1 = s\<lparr>user_agent_cycle := agents\<rparr>;
                  picked = (case proxies s1 of
                              None \<Rightarrow> Some (None, s1)
                            | Some pc \<Rightarrow>
                                (case cycle_next pc of
                                   None \<Rightarrow> None
                                 | Some (proxy, pc') \<Rightarrow> Some (Some proxy, s1\<lparr>proxies := Some pc'\<rparr>)))
              in case picked of
                   None \<Rightarrow> (Inl StopIteration, waited, s1)
                 | Some (proxy, s2) \<Rightarrow>
                     (let effects = waited @ [Sleep (jitter w), Get url agent proxy]
                      in case reply w of
                           Inl e \<Rightarrow> (Inl e, effects, s2)
                         | Inr r \<Rightarrow> (Inr r, effects, s2\<lparr>last_request_time := time_after w\<rparr>))))"

text \<open>\<^verbatim>\<open>response.raise_for_status()\<close> raises for a status from 400 to 599.\<close>

definition raise_for_status :: "response \<Rightarrow> error + unit" where
  "raise_for_status r =
     (if 400 \<le> status_code r \<and> status_code r < 600 then Inl (HTTPError (status_code r)) else Inr ())"

section \<open>Document parser\<close>

subsection \<open>\<^verbatim>\<open>get_company_data\<close>\<close>

text \<open>The loop over \<^verbatim>\<open>range(0, len(columns), 2)\<close> with its guard \<^verbatim>\<open>i + 1 < len(columns)\<close>.\<close>

fun cell_pairs :: "node list \<Rightarrow> (node \<times> node) list" where
  "cell_pairs (k # v # rest) = (k, v) # cell_pairs rest"
| "cell_pairs _ = []"

definition scrape_row :: "snapshot \<Rightarrow> node \<Rightarrow> snapshot" where
  "scrape_row data row =
     foldl (\<lambda>d (k, v). d(cell_text k \<mapsto> convert_value (cell_text v)))
       data (cell_pairs (find_all row ''td'' any_attrs))"

definition scrape_table :: "snapshot \<Rightarrow> node \<Rightarrow> snapshot" where
  "scrape_table data table = foldl scrape_row data (find_all table ''tr'' any_attrs)"

text \<open>
  The \<^verbatim>\<open>except\<close> clause logs and raises again: an exception of the request or of the
  status check is the result. Logging is left out.
\<close>

definition get_company_data ::
  "scraper \<Rightarrow> world \<Rightarrow> string \<Rightarrow> (error + snapshot) \<times> effect list \<times> scraper" where
  "get_company_data s w url =
     (case make_request s w url of
        (Inl e, effects, s') \<Rightarrow> (Inl e, effects, s')
      | (Inr r, effects, s') \<Rightarrow>
          (case raise_for_status r of
             Inl e \<Rightarrow> (Inl e, effects, s')
           | Inr _ \<Rightarrow>
               (let tables = find_all (soup r) ''table'' (has_class ''snapshot-table2'')
                in (Inr (foldl scrape_table Map.empty tables), effects, s'))))"

subsection \<open>\<^verbatim>\<open>get_sector_data\<close>\<close>

text \<open>The local variable \<^verbatim>\<open>table\<close>: three selectors, tried in this order.\<close>

definition sector_table :: "node \<Rightarrow> node option" where
  "sector_table doc =
     py_or (find_tag doc ''table'' (has_class ''table-light''))
       (py_or (find_tag doc ''table'' (has_class ''groups-table-overview''))
          (find_tag doc ''table'' (has_id ''groups-table-overview'')))"

text \<open>
  Once the table is found the function collects the header names and the rows of cell
  texts and hands them to pandas. The construction of the DataFrame and the conversion
  of its percentage columns are pandas operations; they are the parameter \<open>frame\<close>, which
  returns the finished table or raises.
\<close>

definition get_sector_data ::
  "(string list list \<Rightarrow> string list \<Rightarrow> error + 'df) \<Rightarrow> scraper \<Rightarrow> world
     \<Rightarrow> (error + 'df) \<times> effect list \<times> scraper" where
  "get_sector_data frame s w =
     (let url = base_url s @ ''/quote.ashx?t=&ty=c&p=d&b=1''
      in case make_request s w url of
           (Inl e, effects, s') \<Rightarrow> (Inl e, effects, s')
         | (Inr r, effects, s') \<Rightarrow>
             (case raise_for_status r of
                Inl e \<Rightarrow> (Inl e, effects, s')
              | Inr _ \<Rightarrow>
                  (case sector_table (soup r) of
                     None \<Rightarrow> (Inl (ValueError ''Sector table not found''), effects, s')
                   | Some table \<Rightarrow>
                       (let headers =
                              (case find_tag table ''tr'' (has_class ''table-header'') of
                                 Some header_row \<Rightarrow> map cell_text (find_all header_row ''td'' any_attrs)
                               | None \<Rightarrow> []);
                            rows = drop 1 (find_all table ''tr'' any_attrs);
                            data = map (\<lambda>row. map cell_text (find_all row ''td'' any_attrs)) rows
                        in (frame data headers, effects, s')))))"

text \<open>
  A run of requests on one scraper: the effects of each call in turn, the state handed
  from call to call.
\<close>

fun run_requests :: "scraper \<Rightarrow> (world \<times> string) list \<Rightarrow> effect list list" where
  "run_requests s [] = []"
| "run_requests s ((w, url) # rest) =
     (case make_request s w url of (res, effects, s') \<Rightarrow> effects # run_requests s' rest)"


text \<open>The user agents of the GETs among some effects.\<close>

fun agents_sent :: "effect list \<Rightarrow> string list" where
  "agents_sent [] = []"
| "agents_sent (Sleep d # es) = agents_sent es"
| "agents_sent (Get url agent proxy # es) = agent # agents_sent es"



section \<open>Notions used in the statements\<close>

text \<open>
  The specification's \<^verbatim>\<open>clamp(x, lo, hi)\<close>, written from its words, to be compared with
  the code's \<^verbatim>\<open>max(0, min(100, x))\<close>.
\<close>

definition spec_clamp :: "pynum \<Rightarrow> pynum \<Rightarrow> pynum \<Rightarrow> pynum" where
  "spec_clamp x lo hi = (if py_lt x lo then lo else if py_lt hi x then hi else x)"

text \<open>A list of finite scores, each between 0 and 100.\<close>

definition in_range_list :: "pynum list \<Rightarrow> bool" where
  "in_range_list xs = (\<exists>rs. xs = map Fin rs \<and> (\<forall>r \<in> set rs. 0 \<le> r \<and> r \<le> 100))"

text \<open>The state of a cycle over \<open>pool\<close> that has handed out \<open>n\<close> items.\<close>

definition cycle_inv :: "'a list \<Rightarrow> nat \<Rightarrow> 'a cycle \<Rightarrow> bool" where
  "cycle_inv pool n c =
     (iter_rest c = drop n pool \<and> saved c = take n pool
      \<and> idx c = (if n < length pool then 0 else n mod length pool))"

text \<open>A cycle that still has an item to hand out, and a scraper whose proxy cycle (if any) has.\<close>

definition cycle_live :: "'a cycle \<Rightarrow> bool" where
  "cycle_live c = (iter_rest c \<noteq> [] \<or> saved c \<noteq> [])"

definition proxies_ready :: "scraper \<Rightarrow> bool" where
  "proxies_ready s = (case proxies s of None \<Rightarrow> True | Some pc \<Rightarrow> cycle_live pc)"



subsection \<open>Example inputs\<close>

definition page :: "node list \<Rightarrow> node" where
  "page kids = Tag ''[document]'' [] None kids"

text \<open>A company page whose snapshot table has the one pair of cells \<^verbatim>\<open>P/E\<close>, \<^verbatim>\<open>N/A\<close>.\<close>

definition na_page :: node where
  "na_page =
     page [Tag ''table'' [''snapshot-table2''] None
             [Tag ''tr'' [] None
                [Tag ''td'' [] None [NavigableString ''P/E''],
                 Tag ''td'' [] None [Tag ''b'' [] None [NavigableString '' N/A '']]]]]"

text \<open>A page with one table, which no selector of the scraper matches.\<close>

definition plain_page :: node where
  "plain_page =
     page [Tag ''table'' [''other''] None
             [Tag ''tr'' [] None [Tag ''td'' [] None [NavigableString ''x'']]]]"

text \<open>A request that is answered with status 200 and the document \<open>doc\<close>.\<close>

definition served :: "node \<Rightarrow> world" where
  "served doc =
     \<lparr>time_before = 10, random_unit = 0.5, reply = Inr \<lparr>status_code = 200, soup = doc\<rparr>, time_after = 12\<rparr>"

text \<open>A request that fails in the network.\<close>

definition timed_out :: world where
  "timed_out =
     \<lparr>time_before = 10, random_unit = 0.5, reply = Inl (RequestException ''timeout''), time_after = 12\<rparr>"


definition pe15_snapshot :: snapshot where
  "pe15_snapshot =
     [''P/E'' \<mapsto> Number (Fin 15), ''PEG'' \<mapsto> Number (Fin 1), ''P/B'' \<mapsto> Number (Fin 2)]"

section \<open>Properties of the metric scorer\<close>

lemmas score_defs =
  valuation_scores_def growth_scores_def financial_health_scores_def
  pe_score_def peg_score_def pb_score_def earnings_score_def sales_score_def
  current_ratio_score_def debt_equity_score_def
  py_gt_def py_ge_def py_max_def py_min_def py_sub_def np_mean_def np_sum_def

lemma py_add_zero: "py_add (Fin 0) x = x"
  by (cases x) simp_all

lemma np_divide_one: "np_divide x (Fin 1) = x"
  by (cases x) (simp_all add: signed_inf_def)

lemma np_mean_single: "np_mean [x] = x"
  by (simp add: np_mean_def np_sum_def py_add_zero np_divide_one)

lemma np_mean_pair: "np_mean [x, y] = np_divide (py_add x y) (Fin 2)"
  by (simp add: np_mean_def np_sum_def py_add_zero)

subsection \<open>The empty snapshot\<close>

text \<open>
  C1, as amended. For the empty snapshot every field defaults to 0. The valuation score
  and the growth score are 0, but the debt/equity guard \<^verbatim>\<open>debt_equity >= 0\<close> holds at the
  default, its component is \<open>(2 - 0) * 50 = 100\<close>, and so the financial health score is
  100 and the overall score is the mean \<open>100 / 3\<close>.
\<close>

theorem empty_snapshot_ratings:
  "get_stock_rating_data Map.empty =
     Inr \<lparr>valuation_score = Fin 0, growth_score = Fin 0, financial_health_score = Fin 100,
          overall_score = Fin (100 / 3)\<rparr>
   \<and> financial_health_scores (Fin 0) (Fin 0) = [Fin 100]"
  by (simp add: get_stock_rating_data_def dict_get_def score_defs)

text \<open>C1 as stated (all four scores 0) does not hold: the result is not the all-zero rating set.\<close>

theorem empty_snapshot_not_all_zero:
  "get_stock_rating_data Map.empty \<noteq>
     Inr \<lparr>valuation_score = Fin 0, growth_score = Fin 0, financial_health_score = Fin 0,
          overall_score = Fin 0\<rparr>"
  by (simp add: get_stock_rating_data_def dict_get_def score_defs)

subsection \<open>The valuation scenario\<close>

text \<open>
  C2, as amended. For the snapshot with P/E 15, PEG 1 and P/B 2 the valuation components
  are \<open>[49.95, 100, 60]\<close> (the first is \<open>(30 - 15) * 3.33\<close>) and the valuation score is
  their arithmetic mean \<open>209.95 / 3\<close>, which is 69.98 to two decimals.
\<close>

theorem valuation_scenario:
  "valuation_scores (Fin 15) (Fin 1) (Fin 2) = [Fin 49.95, Fin 100, Fin 60]
   \<and> calculate_valuation_score (Number (Fin 15)) (Number (Fin 1)) (Number (Fin 2))
       = Inr (Fin ((49.95 + 100 + 60) / 3))
   \<and> map_sum id valuation_score (get_stock_rating_data pe15_snapshot)
       = Inr (Fin ((49.95 + 100 + 60) / 3))
   \<and> \<bar>(49.95 + 100 + 60) / 3 - 69.98\<bar> \<le> (0.005 :: real)"
  by (simp add: get_stock_rating_data_def dict_get_def pe15_snapshot_def score_defs)

text \<open>
  C2 as stated does not hold: the components are not \<open>[50.05, 100, 60]\<close>, and the score
  \<open>4199 / 60\<close> is not 70.02 to two decimals.
\<close>

theorem valuation_scenario_not_as_stated:
  "valuation_scores (Fin 15) (Fin 1) (Fin 2) \<noteq> [Fin 50.05, Fin 100, Fin 60]
   \<and> map_sum id valuation_score (get_stock_rating_data pe15_snapshot) = Inr (Fin (4199 / 60))
   \<and> \<not> \<bar>4199 / 60 - 70.02\<bar> \<le> (0.005 :: real)"
  by (simp add: get_stock_rating_data_def dict_get_def pe15_snapshot_def score_defs)

subsection \<open>Bounds of the valuation score\<close>

lemma clamp_in_range: "\<exists>r. py_max (Fin 0) (py_min (Fin 100) y) = Fin r \<and> 0 \<le> r \<and> r \<le> 100"
  by (cases y) (auto simp: py_max_def py_min_def py_gt_def)

lemma foldl_py_add_Fin: "foldl py_add (Fin a) (map Fin rs) = Fin (a + sum_list rs)"
  by (induction rs arbitrary: a) (simp_all add: add.assoc)

lemma np_mean_Fin: "rs \<noteq> [] \<Longrightarrow> np_mean (map Fin rs) = Fin (sum_list rs / real (length rs))"
  by (simp add: np_mean_def np_sum_def foldl_py_add_Fin)

lemma sum_list_bounds:
  "\<forall>r \<in> set rs. 0 \<le> r \<and> r \<le> 100 \<Longrightarrow> 0 \<le> sum_list rs \<and> sum_list rs \<le> 100 * real (length rs)"
  by (induction rs) (auto simp: algebra_simps)

lemma np_mean_in_range:
  assumes "rs \<noteq> []" and "\<forall>r \<in> set rs. 0 \<le> r \<and> r \<le> 100"
  shows "\<exists>m. np_mean (map Fin rs) = Fin m \<and> 0 \<le> m \<and> m \<le> 100"
proof -
  have len: "0 < real (length rs)" using assms(1) by simp
  have b: "0 \<le> sum_list rs \<and> sum_list rs \<le> 100 * real (length rs)"
    using sum_list_bounds [OF assms(2)] .
  have "0 \<le> sum_list rs / real (length rs)" using b len by simp
  moreover have "sum_list rs / real (length rs) \<le> 100"
    using b len by (simp add: pos_divide_le_eq)
  ultimately show ?thesis using np_mean_Fin [OF assms(1)] by simp
qed

lemma in_range_list_Nil: "in_range_list []"
  by (simp add: in_range_list_def)

lemma in_range_list_single: "in_range_list [py_max (Fin 0) (py_min (Fin 100) y)]"
proof -
  obtain r where "py_max (Fin 0) (py_min (Fin 100) y) = Fin r" "0 \<le> r" "r \<le> 100"
    using clamp_in_range by blast
  then show ?thesis
    unfolding in_range_list_def by (intro exI [of _ "[r]"]) simp
qed

lemma in_range_list_append: "in_range_list xs \<Longrightarrow> in_range_list ys \<Longrightarrow> in_range_list (xs @ ys)"
proof -
  assume "in_range_list xs" "in_range_list ys"
  then obtain rs qs where "xs = map Fin rs" "\<forall>r \<in> set rs. 0 \<le> r \<and> r \<le> 100"
     "ys = map Fin qs" "\<forall>r \<in> set qs. 0 \<le> r \<and> r \<le> 100"
    unfolding in_range_list_def by blast
  then show ?thesis
    unfolding in_range_list_def by (intro exI [of _ "rs @ qs"]) auto
qed

lemma valuation_scores_in_range: "in_range_list (valuation_scores pe peg pb)"
  unfolding valuation_scores_def pe_score_def peg_score_def pb_score_def
  by (intro in_range_list_append) (simp_all add: in_range_list_Nil in_range_list_single)

lemma mean_or_zero_in_range:
  assumes "in_range_list xs"
  shows "\<exists>r. (if xs \<noteq> [] then np_mean xs else Fin 0) = Fin r \<and> 0 \<le> r \<and> r \<le> 100"
proof (cases "xs = []")
  case True
  then show ?thesis by simp
next
  case False
  obtain rs where rs: "xs = map Fin rs" "\<forall>r \<in> set rs. 0 \<le> r \<and> r \<le> 100"
    using assms unfolding in_range_list_def by blast
  with False have "rs \<noteq> []" by auto
  from np_mean_in_range [OF this rs(2)] rs(1) False show ?thesis by simp
qed

text \<open>
  C3. For all numeric P/E, PEG and P/B (non-finite floats included) the valuation score
  is a finite number between 0 and 100. The P/E component at P/E = 30 is 0, and it is
  part of the average. An input that is not strictly positive contributes no component:
  the list of components is then the list for the other two inputs, and the score is the
  mean of the components that remain. When all three inputs are at most 0 the score
  is 0.
\<close>

theorem valuation_score_bounds:
  "(\<exists>r. calculate_valuation_score (Number pe) (Number peg) (Number pb) = Inr (Fin r)
        \<and> 0 \<le> r \<and> r \<le> 100)
   \<and> pe_score (Fin 30) = Fin 0
   \<and> valuation_scores (Fin 30) peg pb = Fin 0 # valuation_scores (Fin 0) peg pb
   \<and> (\<not> py_gt pe (Fin 0) \<longrightarrow>
        valuation_scores pe peg pb =
          (if py_gt peg (Fin 0) then [peg_score peg] else [])
          @ (if py_gt pb (Fin 0) then [pb_score pb] else []))
   \<and> (\<not> py_gt peg (Fin 0) \<longrightarrow>
        valuation_scores pe peg pb =
          (if py_gt pe (Fin 0) then [pe_score pe] else [])
          @ (if py_gt pb (Fin 0) then [pb_score pb] else []))
   \<and> (\<not> py_gt pb (Fin 0) \<longrightarrow>
        valuation_scores pe peg pb =
          (if py_gt pe (Fin 0) then [pe_score pe] else [])
          @ (if py_gt peg (Fin 0) then [peg_score peg] else []))
   \<and> (valuation_scores pe peg pb \<noteq> [] \<longrightarrow>
        calculate_valuation_score (Number pe) (Number peg) (Number pb)
          = Inr (np_mean (valuation_scores pe peg pb)))
   \<and> (py_le pe (Fin 0) \<and> py_le peg (Fin 0) \<and> py_le pb (Fin 0) \<longrightarrow>
        calculate_valuation_score (Number pe) (Number peg) (Number pb) = Inr (Fin 0))"
proof -
  have bounds: "\<exists>r. calculate_valuation_score (Number pe) (Number peg) (Number pb) = Inr (Fin r)
      \<and> 0 \<le> r \<and> r \<le> 100"
    using mean_or_zero_in_range [OF valuation_scores_in_range [of pe peg pb]]
    by (simp add: Let_def)
  have at30: "pe_score (Fin 30) = Fin 0"
    by (simp add: pe_score_def py_sub_def py_min_def py_max_def py_gt_def)
  have incl30: "valuation_scores (Fin 30) peg pb = Fin 0 # valuation_scores (Fin 0) peg pb"
    by (simp add: valuation_scores_def at30 py_gt_def)
  have nonpos: "\<not> py_gt x (Fin 0)" if "py_le x (Fin 0)" for x
    using that by (cases x) (simp_all add: py_gt_def)
  have all_nonpos: "py_le pe (Fin 0) \<and> py_le peg (Fin 0) \<and> py_le pb (Fin 0) \<longrightarrow>
        calculate_valuation_score (Number pe) (Number peg) (Number pb) = Inr (Fin 0)"
    using nonpos by (simp add: valuation_scores_def)
  show ?thesis
    using bounds at30 incl30 all_nonpos by (simp add: valuation_scores_def Let_def)
qed

theorem valuation_score_bounds_witness:
  "valuation_scores (Fin 0) (Fin 1) (Fin 2) = [Fin 100, Fin 60]
   \<and> calculate_valuation_score (Number (Fin 0)) (Number (Fin 1)) (Number (Fin 2)) = Inr (Fin 80)
   \<and> calculate_valuation_score (Number (Fin (- 1))) (Number (Fin 0)) (Number NInf) = Inr (Fin 0)"
  using valuation_score_bounds [of "Fin 0" "Fin 1" "Fin 2"]
        valuation_score_bounds [of "Fin (- 1)" "Fin 0" NInf]
  by (simp add: py_gt_def peg_score_def pb_score_def py_sub_def py_min_def py_max_def
        np_mean_def np_sum_def)

subsection \<open>Components of the financial health score\<close>

lemma clamp_eq:
  "y \<noteq> NaN \<Longrightarrow> py_max (Fin 0) (py_min (Fin 100) y) = spec_clamp y (Fin 0) (Fin 100)"
  by (cases y) (auto simp: py_max_def py_min_def py_gt_def spec_clamp_def)

lemma current_ratio_not_nan: "py_gt cr (Fin 0) \<Longrightarrow> py_mul cr (Fin 50) \<noteq> NaN"
  by (cases cr) (auto simp: py_gt_def signed_inf_def)

lemma debt_equity_not_nan: "py_ge de (Fin 0) \<Longrightarrow> py_mul (py_sub (Fin 2) de) (Fin 50) \<noteq> NaN"
  by (cases de) (auto simp: py_ge_def py_sub_def signed_inf_def)

text \<open>
  C4. For all numeric current ratio \<open>cr\<close> and debt/equity \<open>de\<close>, the components of the
  financial health score are \<open>clamp(cr * 50, 0, 100)\<close>, present exactly when \<open>cr > 0\<close>,
  followed by \<open>clamp((2 - de) * 50, 0, 100)\<close>, present exactly when \<open>de \<ge> 0\<close>; the score is
  their average (half the sum of the two, or the one that is present). At \<open>de = 0\<close> the
  guard holds and the debt/equity component is present, with the score 100.
\<close>

theorem financial_health_components:
  "financial_health_scores cr de =
      (if py_gt cr (Fin 0) then [spec_clamp (py_mul cr (Fin 50)) (Fin 0) (Fin 100)] else [])
      @ (if py_ge de (Fin 0)
         then [spec_clamp (py_mul (py_sub (Fin 2) de) (Fin 50)) (Fin 0) (Fin 100)] else [])
   \<and> (py_gt cr (Fin 0) \<and> py_ge de (Fin 0) \<longrightarrow>
        calculate_financial_health_score (Number cr) (Number de) =
          Inr (np_divide
                 (py_add (spec_clamp (py_mul cr (Fin 50)) (Fin 0) (Fin 100))
                         (spec_clamp (py_mul (py_sub (Fin 2) de) (Fin 50)) (Fin 0) (Fin 100)))
                 (Fin 2)))
   \<and> (py_gt cr (Fin 0) \<and> \<not> py_ge de (Fin 0) \<longrightarrow>
        calculate_financial_health_score (Number cr) (Number de) =
          Inr (spec_clamp (py_mul cr (Fin 50)) (Fin 0) (Fin 100)))
   \<and> (\<not> py_gt cr (Fin 0) \<and> py_ge de (Fin 0) \<longrightarrow>
        calculate_financial_health_score (Number cr) (Number de) =
          Inr (spec_clamp (py_mul (py_sub (Fin 2) de) (Fin 50)) (Fin 0) (Fin 100)))
   \<and> py_ge (Fin 0) (Fin 0)
   \<and> financial_health_scores cr (Fin 0) =
        (if py_gt cr (Fin 0) then [spec_clamp (py_mul cr (Fin 50)) (Fin 0) (Fin 100)] else [])
        @ [Fin 100]"
proof -
  have c1: "py_gt cr (Fin 0) \<Longrightarrow>
      current_ratio_score cr = spec_clamp (py_mul cr (Fin 50)) (Fin 0) (Fin 100)"
    using clamp_eq [OF current_ratio_not_nan] by (simp add: current_ratio_score_def)
  have c2: "py_ge de (Fin 0) \<Longrightarrow>
      debt_equity_score de = spec_clamp (py_mul (py_sub (Fin 2) de) (Fin 50)) (Fin 0) (Fin 100)"
    using clamp_eq [OF debt_equity_not_nan] by (simp add: debt_equity_score_def)
  have z: "debt_equity_score (Fin 0) = Fin 100" "py_ge (Fin 0) (Fin 0)"
    by (simp_all add: score_defs)
  show ?thesis
    using c1 c2 z
    by (simp add: financial_health_scores_def np_mean_single np_mean_pair)
qed

theorem financial_health_components_witness:
  "calculate_financial_health_score (Number (Fin 1.5)) (Number (Fin 0.5)) = Inr (Fin 75)
   \<and> calculate_financial_health_score (Number (Fin 1)) (Number (Fin (- 1))) = Inr (Fin 50)
   \<and> calculate_financial_health_score (Number (Fin 0)) (Number (Fin 0)) = Inr (Fin 100)"
  using financial_health_components [of "Fin 1.5" "Fin 0.5"]
        financial_health_components [of "Fin 1" "Fin (- 1)"]
        financial_health_components [of "Fin 0" "Fin 0"]
  by (simp add: py_gt_def py_ge_def py_sub_def spec_clamp_def financial_health_scores_def
        np_mean_single np_mean_pair)

section \<open>Properties of value normalization\<close>

lemmas float_defs =
  convert_value_def str_remove_def py_float_def is_digit_def str_strip_def strip_by_def
  is_space_def is_float_space_def
  split_sign_def parse_unsigned_def to_lower_def parse_decimal_def parse_exponent_def
  digits_value_def digit_value_def scale10_def

text \<open>
  When the numeric parse fails, the result is the string without its commas and percent
  signs; it is the argument itself only when the argument has neither.
\<close>

lemma convert_value_failed_parse:
  "py_float (str_remove (CHR ''%'') (str_remove (CHR '','') v)) = None \<Longrightarrow>
   convert_value v = Str (str_remove (CHR ''%'') (str_remove (CHR '','') v))"
  by (simp add: convert_value_def)

lemma str_remove_absent: "c \<notin> set v \<Longrightarrow> str_remove c v = v"
  by (induction v) (auto simp: str_remove_def)

lemma convert_value_unchanged:
  assumes "CHR '','' \<notin> set v" and "CHR ''%'' \<notin> set v" and "py_float v = None"
  shows "convert_value v = Str v"
  using assms by (simp add: convert_value_def str_remove_absent)

text \<open>
  C10. \<^verbatim>\<open>"1,234.5%"\<close> is mapped to the number 1234.5 and \<^verbatim>\<open>"N/A"\<close> to the string
  \<^verbatim>\<open>"N/A"\<close>. A failed numeric parse does not in general yield the original string:
  the cell \<^verbatim>\<open>"DJIA, NDX, S&P 500"\<close> does not parse as a number and comes back without
  its commas.
\<close>

theorem value_normalization:
  "convert_value ''1,234.5%'' = Number (Fin 1234.5)
   \<and> convert_value ''N/A'' = Str ''N/A''
   \<and> py_float ''DJIA NDX S&P 500'' = None
   \<and> convert_value ''DJIA, NDX, S&P 500'' = Str ''DJIA NDX S&P 500''
   \<and> convert_value ''DJIA, NDX, S&P 500'' \<noteq> Str ''DJIA, NDX, S&P 500''"
  by (simp add: float_defs)

section \<open>Properties of the document parser\<close>

lemma make_request_served:
  "make_request (init None) (served doc) url =
     (Inr \<lparr>status_code = 200, soup = doc\<rparr>,
      [Sleep 1, Get url (default_user_agents ! 0) None],
      (init None)
        \<lparr>user_agent_cycle :=
           \<lparr>iter_rest = tl default_user_agents, saved = [default_user_agents ! 0], idx = 0\<rparr>,
         last_request_time := 12\<rparr>)"
  by (simp add: make_request_def init_def served_def cycle_next_def cycle_new_def
        default_user_agents_def jitter_def random_uniform_def)

subsection \<open>A snapshot with a string in a scored field\<close>

lemma na_snapshot:
  "fst (get_company_data (init None) (served na_page) url) = Inr [''P/E'' \<mapsto> Str ''N/A'']"
  by (simp add: get_company_data_def make_request_served raise_for_status_def na_page_def
        page_def find_all_def scrape_table_def scrape_row_def cell_text_def any_attrs_def
        float_defs)

lemma na_rating: "get_stock_rating_data [''P/E'' \<mapsto> Str ''N/A''] = Inl TypeError"
  by (simp add: get_stock_rating_data_def dict_get_def)

text \<open>Whatever else the snapshot holds, a string under \<^verbatim>\<open>P/E\<close> makes the rating fail.\<close>

lemma string_pe_raises:
  "company_data ''P/E'' = Some (Str t) \<Longrightarrow> get_stock_rating_data company_data = Inl TypeError"
  by (simp add: get_stock_rating_data_def dict_get_def)

text \<open>
  C5. There is a snapshot that \<^verbatim>\<open>get_company_data\<close> returns (for a page whose snapshot
  table has the cell pair \<^verbatim>\<open>P/E\<close>, \<^verbatim>\<open>N/A\<close>) in which \<^verbatim>\<open>P/E\<close> is the string \<^verbatim>\<open>"N/A"\<close>,
  and on it \<^verbatim>\<open>get_stock_rating_data\<close> raises \<^verbatim>\<open>TypeError\<close> instead of returning ratings.
\<close>

theorem string_field_raises:
  "\<exists>s w url snap. fst (get_company_data s w url) = Inr snap
      \<and> snap ''P/E'' = Some (Str ''N/A'')
      \<and> get_stock_rating_data snap = Inl TypeError"
  using na_snapshot na_rating
  by (intro exI [of _ "init None"] exI [of _ "served na_page"] exI [of _ "''u''"]
        exI [of _ "[''P/E'' \<mapsto> Str ''N/A'']"]) simp

subsection \<open>No snapshot table\<close>

text \<open>
  C6. When the request succeeds and the document has no table of class
  \<^verbatim>\<open>snapshot-table2\<close>, \<^verbatim>\<open>get_company_data\<close> returns the empty mapping: it raises nothing.
\<close>

theorem no_snapshot_tables:
  assumes "make_request s w url = (Inr r, effects, s')"
    and "raise_for_status r = Inr ()"
    and "find_all (soup r) ''table'' (has_class ''snapshot-table2'') = []"
  shows "get_company_data s w url = (Inr Map.empty, effects, s')"
  using assms by (simp add: get_company_data_def)

theorem no_snapshot_tables_witness:
  "find_all plain_page ''table'' (has_class ''snapshot-table2'') = []
   \<and> fst (get_company_data (init None) (served plain_page) ''u'') = Inr Map.empty"
  using no_snapshot_tables [OF make_request_served [of plain_page "''u''"]]
  by (simp add: raise_for_status_def find_all_def plain_page_def page_def)

subsection \<open>No sector table\<close>

text \<open>The selectors are tried in their order, and the first that matches decides.\<close>

lemma sector_table_first:
  "find_tag doc ''table'' (has_class ''table-light'') = Some t \<Longrightarrow> sector_table doc = Some t"
  by (simp add: sector_table_def py_or_def)

lemma sector_table_second:
  "find_tag doc ''table'' (has_class ''table-light'') = None \<Longrightarrow>
   find_tag doc ''table'' (has_class ''groups-table-overview'') = Some t \<Longrightarrow>
   sector_table doc = Some t"
  by (simp add: sector_table_def py_or_def)

lemma sector_table_third:
  "find_tag doc ''table'' (has_class ''table-light'') = None \<Longrightarrow>
   find_tag doc ''table'' (has_class ''groups-table-overview'') = None \<Longrightarrow>
   sector_table doc = find_tag doc ''table'' (has_id ''groups-table-overview'')"
  by (simp add: sector_table_def py_or_def)

text \<open>
  C7. When the request succeeds and no table of the document has the class
  \<^verbatim>\<open>table-light\<close>, the class \<^verbatim>\<open>groups-table-overview\<close> or the id \<^verbatim>\<open>groups-table-overview\<close>
  (the three selectors, tried in this order), \<^verbatim>\<open>get_sector_data\<close> raises
  \<^verbatim>\<open>ValueError("Sector table not found")\<close>; whatever the DataFrame stage would do, no
  table is returned.
\<close>

theorem sector_table_not_found:
  assumes "make_request s w (base_url s @ ''/quote.ashx?t=&ty=c&p=d&b=1'') = (Inr r, effects, s')"
    and "raise_for_status r = Inr ()"
    and "find_all (soup r) ''table'' (has_class ''table-light'') = []"
    and "find_all (soup r) ''table'' (has_class ''groups-table-overview'') = []"
    and "find_all (soup r) ''table'' (has_id ''groups-table-overview'') = []"
  shows "get_sector_data frame s w = (Inl (ValueError ''Sector table not found''), effects, s')"
  using assms by (simp add: get_sector_data_def sector_table_def find_tag_def py_or_def)

theorem sector_table_not_found_witness:
  "fst (get_sector_data (\<lambda>data headers. Inr (headers # data)) (init None) (served plain_page))
     = Inl (ValueError ''Sector table not found'')"
  using sector_table_not_found
    [OF make_request_served [of plain_page "base_url (init None) @ ''/quote.ashx?t=&ty=c&p=d&b=1''"],
     of "\<lambda>data headers. Inr (headers # data)"]
  by (simp add: raise_for_status_def find_all_def plain_page_def page_def)

section \<open>Properties of the request throttler\<close>

lemma cycle_inv_new: "cycle_inv pool 0 (cycle_new pool)"
  by (simp add: cycle_inv_def cycle_new_def)

lemma cycle_next_inv:
  assumes "cycle_inv pool n c" and "pool \<noteq> []"
  shows "\<exists>c'. cycle_next c = Some (pool ! (n mod length pool), c') \<and> cycle_inv pool (Suc n) c'"
proof (cases "n < length pool")
  case True
  then have d: "drop n pool = pool ! n # drop (Suc n) pool"
    by (simp add: Cons_nth_drop_Suc)
  have t: "take n pool @ [pool ! n] = take (Suc n) pool"
    using True by (simp add: take_Suc_conv_app_nth)
  have wrap: "Suc n mod length pool = 0" if "\<not> Suc n < length pool"
  proof -
    from that True have "Suc n = length pool" by simp
    then show ?thesis by simp
  qed
  show ?thesis
    using assms True d t wrap by (auto simp: cycle_inv_def cycle_next_def)
next
  case False
  then have full: "iter_rest c = []" "saved c = pool" "idx c = n mod length pool"
    using assms by (simp_all add: cycle_inv_def)
  have lt: "n mod length pool < length pool" using assms(2) by simp
  have step: "(if n mod length pool + 1 \<ge> length pool then 0 else n mod length pool + 1)
      = Suc n mod length pool"
    using lt by (auto simp: mod_Suc)
  show ?thesis
    using False full assms(2) step by (auto simp: cycle_inv_def cycle_next_def)
qed

lemma cycle_next_live:
  assumes "cycle_live c"
  shows "\<exists>x c'. cycle_next c = Some (x, c') \<and> cycle_live c'"
  using assms by (auto simp: cycle_live_def cycle_next_def split: list.splits)

lemma agents_sent_append: "agents_sent (es @ fs) = agents_sent es @ agents_sent fs"
  by (induction es rule: agents_sent.induct) simp_all

text \<open>
  One call sends exactly one GET, with the next user agent of the cycle, whether the GET
  then succeeds or raises.
\<close>

lemma make_request_step:
  assumes "cycle_inv pool n (user_agent_cycle s)" and "pool \<noteq> []" and "proxies_ready s"
  shows "\<exists>res effects s'. make_request s w url = (res, effects, s')
           \<and> agents_sent effects = [pool ! (n mod length pool)]
           \<and> cycle_inv pool (Suc n) (user_agent_cycle s') \<and> proxies_ready s'"
proof -
  obtain c' where c': "cycle_next (user_agent_cycle s) = Some (pool ! (n mod length pool), c')"
      "cycle_inv pool (Suc n) c'"
    using cycle_next_inv [OF assms(1,2)] by blast
  show ?thesis
  proof (cases "proxies s")
    case None
    then show ?thesis
      using c'
      by (cases "reply w")
         (simp_all add: make_request_def proxies_ready_def agents_sent_append Let_def)
  next
    case (Some pc)
    then have "cycle_live pc" using assms(3) by (simp add: proxies_ready_def)
    then obtain x pc' where pc': "cycle_next pc = Some (x, pc')" "cycle_live pc'"
      using cycle_next_live by blast
    then show ?thesis
      using c' Some
      by (cases "reply w")
         (simp_all add: make_request_def proxies_ready_def agents_sent_append Let_def)
  qed
qed

lemma run_requests_agents:
  assumes "cycle_inv pool n (user_agent_cycle s)" and "pool \<noteq> []" and "proxies_ready s"
    and "i < length reqs"
  shows "agents_sent (run_requests s reqs ! i) = [pool ! ((n + i) mod length pool)]"
  using assms
proof (induction reqs arbitrary: s n i)
  case Nil
  then show ?case by simp
next
  case (Cons a reqs)
  obtain w url where a: "a = (w, url)" by (cases a)
  obtain res effects s' where st: "make_request s w url = (res, effects, s')"
      "agents_sent effects = [pool ! (n mod length pool)]"
      "cycle_inv pool (Suc n) (user_agent_cycle s')" "proxies_ready s'"
    using make_request_step [OF Cons.prems(1,2,3)] by blast
  show ?case
  proof (cases i)
    case 0
    then show ?thesis using a st by simp
  next
    case (Suc j)
    then have "j < length reqs" using Cons.prems(4) by simp
    from Cons.IH [OF st(3) Cons.prems(2) st(4) this]
    show ?thesis using a st Suc by simp
  qed
qed

text \<open>
  C8. On a scraper whose user-agent cycle is fresh over a pool of size \<open>K > 0\<close> (and whose
  proxy cycle, if it has one, is not empty), the \<open>i\<close>-th call of \<^verbatim>\<open>_make_request\<close>,
  counting from 0, sends its GET with the user agent \<open>pool ! (i mod K)\<close>, whatever the
  earlier calls met.
\<close>

theorem identity_cycling:
  assumes "user_agent_cycle s = cycle_new pool" and "pool \<noteq> []" and "proxies_ready s"
    and "i < length reqs"
  shows "agents_sent (run_requests s reqs ! i) = [pool ! (i mod length pool)]"
  using run_requests_agents [of pool 0 s i reqs] assms by (simp add: cycle_inv_new)

theorem identity_cycling_witness:
  "agents_sent (run_requests (init None) (replicate 7 (timed_out, ''u'')) ! 6)
     = [default_user_agents ! 1]"
  using identity_cycling [of "init None" default_user_agents 6 "replicate 7 (timed_out, ''u'')"]
  by (simp add: init_def proxies_ready_def default_user_agents_def)

subsection \<open>The gap between two fetches\<close>













end
